theory Spec2Isabelle
  imports Complex_Main "HOL-Library.Char_ord" "HOL-Library.List_Lexorder"
begin

section \<open>Python strings\<close>

text \<open>
  A Python \<open>str\<close> is modelled as a \<open>string\<close>; every \<open>char\<close> stands for the code point of
  the same number, so the model covers the strings whose code points are below 256.
  Strings are compared as Python compares them: lexicographically, by code point.
\<close>

definition py_isspace :: "char \<Rightarrow> bool" where
  \<comment> \<open>\<open>str.isspace\<close> on one character, which is also what \<open>\s\<close> matches in a \<open>str\<close> pattern:
      TAB, LF, VT, FF, CR, FS, GS, RS, US, SPACE, NEL and NBSP.\<close>
  "py_isspace c = (of_char c \<in> {9, 10, 11, 12, 13, 28, 29, 30, 31, 32, 133, 160 :: nat})"

definition py_isdigit :: "char \<Rightarrow> bool" where
  \<comment> \<open>what \<open>\d\<close> matches below code point 256: the ASCII digits.\<close>
  "py_isdigit c = (48 \<le> (of_char c :: nat) \<and> (of_char c :: nat) \<le> 57)"

definition strip_where :: "(char \<Rightarrow> bool) \<Rightarrow> string \<Rightarrow> string" where
  \<comment> \<open>remove the leading and the trailing characters that satisfy \<open>P\<close>.\<close>
  "strip_where P s = rev (dropWhile P (rev (dropWhile P s)))"

definition strip :: "string \<Rightarrow> string" where
  \<comment> \<open>\<open>s.strip()\<close>\<close>
  "strip s = strip_where py_isspace s"

definition strip_chars :: "string \<Rightarrow> string \<Rightarrow> string" where
  \<comment> \<open>\<open>s.strip(chars)\<close>: \<open>chars\<close> is a set of characters, not a prefix or suffix.\<close>
  "strip_chars chars s = strip_where (\<lambda>c. c \<in> set chars) s"

fun split_on :: "char \<Rightarrow> string \<Rightarrow> string \<Rightarrow> string list" where
  \<comment> \<open>\<open>s.split(sep)\<close> for a separator of one character; \<open>cur\<close> is the piece being read,
      reversed.\<close>
  "split_on sep cur [] = [rev cur]"
| "split_on sep cur (c # cs) =
     (if c = sep then rev cur # split_on sep [] cs else split_on sep (c # cur) cs)"

definition split_lines :: "string \<Rightarrow> string list" where
  \<comment> \<open>\<open>s.split('\n')\<close>\<close>
  "split_lines s = split_on (CHR 0x0A) [] s"

fun join :: "string \<Rightarrow> string list \<Rightarrow> string" where
  \<comment> \<open>\<open>sep.join(xs)\<close> on a list of strings\<close>
  "join sep [] = []"
| "join sep [x] = x"
| "join sep (x # y # ys) = x @ sep @ join sep (y # ys)"

section \<open>Reference consolidation\<close>

text \<open>
  Every document generator computes
  \<^verbatim>\<open>sorted(list(set(ref.strip() for ref in all_references if ref.strip())))\<close>.
\<close>

definition consolidate :: "string list \<Rightarrow> string list" where
  "consolidate all_references =
     sorted_list_of_set (set (map strip (filter (\<lambda>ref. strip ref \<noteq> []) all_references)))"

section \<open>Python values, exceptions and the outside world\<close>

text \<open>
  The values that travel between the program and its collaborators are decoded JSON.
  Numbers are integers: floating point values are outside the model. A dictionary is an
  association list read by \<open>map_of\<close>.
\<close>

datatype json = JNull | JBool bool | JInt int | JStr string | JArr "json list"
  | JObj "(string \<times> json) list"

datatype py_error = AttributeError | TypeError

fun truthy :: "json \<Rightarrow> bool" where
  \<comment> \<open>the truth value Python gives a value in \<open>if v:\<close>\<close>
  "truthy JNull = False"
| "truthy (JBool b) = b"
| "truthy (JInt i) = (i \<noteq> 0)"
| "truthy (JStr s) = (s \<noteq> [])"
| "truthy (JArr xs) = (xs \<noteq> [])"
| "truthy (JObj kvs) = (kvs \<noteq> [])"

fun dict_get :: "json \<Rightarrow> string \<Rightarrow> json \<Rightarrow> py_error + json" where
  \<comment> \<open>\<open>v.get(k, d)\<close>: only a dictionary has the method.\<close>
  "dict_get (JObj kvs) k d = Inr (case map_of kvs k of None \<Rightarrow> d | Some v \<Rightarrow> v)"
| "dict_get _ k d = Inl AttributeError"

fun str_strip :: "json \<Rightarrow> py_error + string" where
  \<comment> \<open>\<open>v.strip()\<close>: only a string has the method.\<close>
  "str_strip (JStr s) = Inr (strip s)"
| "str_strip _ = Inl AttributeError"

definition ebind :: "'e + 'a \<Rightarrow> ('a \<Rightarrow> 'e + 'b) \<Rightarrow> 'e + 'b" where
  \<comment> \<open>sequencing: an exception raised by the first step is the outcome.\<close>
  "ebind m f = (case m of Inl e \<Rightarrow> Inl e | Inr v \<Rightarrow> f v)"

record llm_request =
  messages :: "(string \<times> string) list"
  model :: string
  temperature :: real
  max_tokens :: nat

text \<open>
  What the program does to the outside world is recorded, in order, as a list of events.
  The collaborators are parameters: \<open>make_llm_request\<close>, \<open>openalex_search\<close> and
  \<open>google_search\<close> give the value the function of that name returns (\<open>JNull\<close> for
  \<open>None\<close>), which may depend on everything that happened before the call.
\<close>

datatype alignment = CENTER | LEFT

datatype docx_block =
    Heading nat alignment string
    \<comment> \<open>\<open>doc.add_heading(text, level)\<close> with its alignment\<close>
  | BodyParagraph string
    \<comment> \<open>a paragraph with line spacing 2.0 and a first line indent of half an inch\<close>
  | ReferenceParagraph string
    \<comment> \<open>a left-aligned paragraph with line spacing 2.0 and a hanging indent of half an
        inch\<close>

datatype event =
    LLMCall llm_request
  | OpenAlexSearch string nat "string option"
  | GoogleSearch string
  | FileWrite string string
  | DocxSave string "docx_block list"

record env =
  make_llm_request :: "event list \<Rightarrow> llm_request \<Rightarrow> json"
  openalex_search :: "event list \<Rightarrow> string \<Rightarrow> nat \<Rightarrow> string option \<Rightarrow> json list"
  google_search :: "event list \<Rightarrow> string \<Rightarrow> json list"
  openalex_email :: "string option"
  timestamp :: string
  py_repr :: "json \<Rightarrow> string"

section \<open>Decomposer: \<open>generate_subcategories\<close>\<close>

definition re_match_numbered :: "string \<Rightarrow> string option" where
  \<comment> \<open>\<open>re.match(r'^\d+\.\s*(.*?)(?::.*)?$', line)\<close> on a line without a newline: group 1
      of the match, or \<open>None\<close>. After the digits, the period and the whitespace, the lazy
      group takes the shortest text that is followed by the end of the line or by a colon.\<close>
  "re_match_numbered line =
     (if takeWhile py_isdigit line = [] then None
      else case dropWhile py_isdigit line of
             [] \<Rightarrow> None
           | c # rest \<Rightarrow>
               if c = CHR ''.''
               then Some (takeWhile (\<lambda>c. c \<noteq> CHR '':'') (dropWhile py_isspace rest))
               else None)"

fun parse_lines :: "string list \<Rightarrow> string list" where
  \<comment> \<open>the loop over the lines of the response\<close>
  "parse_lines [] = []"
| "parse_lines (line # lines) =
     (case re_match_numbered (strip line) of
        Some g \<Rightarrow> strip_chars ''**'' (strip g) # parse_lines lines
      | None \<Rightarrow> parse_lines lines)"

definition subcategories_request :: "string \<Rightarrow> llm_request" where
  "subcategories_request topic =
     \<lparr>messages = [(''user'', ''Given the research topic: '' @ [CHR 0x27] @ topic @ [CHR 0x27]
        @ '', generate a list of 3 to 5 logical subcategories for an in-depth research paper.'')],
      model = ''gpt-4o-mini'', temperature = 0.4, max_tokens = 200\<rparr>"

definition subcategories_of_response :: "json \<Rightarrow> py_error + string list option" where
  \<comment> \<open>what \<open>generate_subcategories\<close> does with the engine's response\<close>
  "subcategories_of_response response =
     (if truthy response then
        ebind (dict_get response ''data'' (JStr [])) (\<lambda>data.
        ebind (str_strip data) (\<lambda>raw_response.
          let subcategories = parse_lines (split_lines raw_response)
          in if subcategories \<noteq> [] then Inr (Some subcategories) else Inr None))
      else Inr None)"

definition generate_subcategories ::
  "env \<Rightarrow> string \<Rightarrow> event list \<Rightarrow> (py_error + string list option) \<times> event list" where
  "generate_subcategories e topic tr =
     (let request = subcategories_request topic;
          response = make_llm_request e tr request
      in (subcategories_of_response response, tr @ [LLMCall request]))"

section \<open>Formatting values into text\<close>

fun digits :: "nat \<Rightarrow> string" where
  \<comment> \<open>the decimal digits of a natural number\<close>
  "digits n = (if n < 10 then [''0123456789'' ! n]
               else digits (n div 10) @ [''0123456789'' ! (n mod 10)])"

declare digits.simps [simp del]

definition str_int :: "int \<Rightarrow> string" where
  \<comment> \<open>\<open>str(i)\<close> for an integer\<close>
  "str_int i = (if i < 0 then ''-'' @ digits (nat (- i)) else digits (nat i))"

definition py_str :: "(json \<Rightarrow> string) \<Rightarrow> json \<Rightarrow> string" where
  \<comment> \<open>the text an f-string puts for \<open>{v}\<close>. For a list or a dictionary it is Python's
      \<open>repr\<close>, which the model takes as the parameter \<open>repr\<close>.\<close>
  "py_str repr v =
     (case v of
        JNull \<Rightarrow> ''None''
      | JBool b \<Rightarrow> (if b then ''True'' else ''False'')
      | JInt i \<Rightarrow> str_int i
      | JStr s \<Rightarrow> s
      | JArr xs \<Rightarrow> repr v
      | JObj kvs \<Rightarrow> repr v)"

fun py_iter :: "json \<Rightarrow> py_error + json list" where
  \<comment> \<open>the values \<open>for a in v\<close> runs through: the elements of a list, the characters of a
      string, the keys of a dictionary; nothing else is iterable.\<close>
  "py_iter (JArr xs) = Inr xs"
| "py_iter (JStr s) = Inr (map (\<lambda>c. JStr [c]) s)"
| "py_iter (JObj kvs) = Inr (map JStr (remdups (map fst kvs)))"
| "py_iter _ = Inl TypeError"

fun emap :: "('a \<Rightarrow> 'e + 'b) \<Rightarrow> 'a list \<Rightarrow> 'e + 'b list" where
  \<comment> \<open>a list comprehension whose element expression may raise\<close>
  "emap f [] = Inr []"
| "emap f (x # xs) = ebind (f x) (\<lambda>y. ebind (emap f xs) (\<lambda>ys. Inr (y # ys)))"

fun as_str :: "json \<Rightarrow> py_error + string" where
  "as_str (JStr s) = Inr s"
| "as_str _ = Inl TypeError"

definition str_join :: "string \<Rightarrow> json list \<Rightarrow> py_error + string" where
  \<comment> \<open>\<open>sep.join(vs)\<close>: a \<open>TypeError\<close> unless every item is a string.\<close>
  "str_join sep vs = ebind (emap as_str vs) (\<lambda>ss. Inr (join sep ss))"

section \<open>Subcategory researcher: \<open>research_subcategory\<close>\<close>

definition author_display_name :: "json \<Rightarrow> py_error + json" where
  \<comment> \<open>\<open>a.get('author', {}).get('display_name')\<close>\<close>
  "author_display_name a =
     ebind (dict_get a ''author'' (JObj [])) (\<lambda>author. dict_get author ''display_name'' JNull)"

definition openalex_record :: "env \<Rightarrow> json \<Rightarrow> py_error + string \<times> string" where
  \<comment> \<open>one turn of the loop over the search results in \<^verbatim>\<open>openAlex.py\<close>: the reference
      string and the block added to \<open>context_data\<close>.\<close>
  "openalex_record e result =
     ebind (dict_get result ''title'' JNull) (\<lambda>title.
     ebind (dict_get result ''authorships'' (JArr [])) (\<lambda>authorships.
     ebind (py_iter authorships) (\<lambda>items.
     ebind (emap author_display_name items) (\<lambda>names.
     ebind (str_join '', '' names) (\<lambda>author_names.
     ebind (dict_get result ''doi'' JNull) (\<lambda>doi.
     ebind (dict_get result ''publication_year'' (JStr ''n.d.'')) (\<lambda>year.
       let ref_string = author_names @ '' ('' @ py_str (py_repr e) year @ ''). ''
                          @ py_str (py_repr e) title @ ''.'';
           ref_string = (if truthy doi then ref_string @ '' '' @ py_str (py_repr e) doi
                         else ref_string)
       in Inr (ref_string,
               ''Title: '' @ py_str (py_repr e) title @ ''\<newline>Authors: '' @ author_names
                 @ ''\<newline>DOI: '' @ py_str (py_repr e) doi @ ''\<newline>\<newline>''))))))))"

definition google_record :: "env \<Rightarrow> json \<Rightarrow> py_error + string \<times> string" where
  \<comment> \<open>the same turn of the loop in \<^verbatim>\<open>searched_research.py\<close>\<close>
  "google_record e result =
     ebind (dict_get result ''title'' JNull) (\<lambda>title.
     ebind (dict_get result ''snippet'' (JStr ''No snippet available.'')) (\<lambda>snippet.
     ebind (dict_get result ''link'' JNull) (\<lambda>url.
       Inr (py_str (py_repr e) title @ ''. '' @ py_str (py_repr e) url,
            ''Title: '' @ py_str (py_repr e) title @ ''\<newline>Snippet: ''
              @ py_str (py_repr e) snippet @ ''\<newline>URL: '' @ py_str (py_repr e) url
              @ ''\<newline>\<newline>''))))"

fun collect_records ::
  "(json \<Rightarrow> py_error + string \<times> string) \<Rightarrow> json list \<Rightarrow> string \<Rightarrow> string list
     \<Rightarrow> py_error + string \<times> string list" where
  \<comment> \<open>the loop \<open>for result in search_results\<close>, from the current \<open>context_data\<close> and
      \<open>references\<close>\<close>
  "collect_records record [] context_data references = Inr (context_data, references)"
| "collect_records record (result # results) context_data references =
     ebind (record result) (\<lambda>(ref_string, block).
       collect_records record results (context_data @ block) (references @ [ref_string]))"

definition openalex_prompt :: "string \<Rightarrow> string \<Rightarrow> string" where
  "openalex_prompt subcategory context_data =
     ''Synthesize a detailed academic summary for the subtopic '' @ [CHR 0x27] @ subcategory
     @ [CHR 0x27] @ '' using the following scholarly article metadata.\<newline>''
     @ ''    Trace connections between the articles and the broader subtopic.\<newline>''
     @ ''    Your summary must be in plain text and should not contain any in-text citations or references.\<newline>''
     @ ''    \<newline>''
     @ ''    Scholarly Article Metadata:\<newline>''
     @ ''    '' @ context_data @ ''\<newline>''
     @ ''    ''"

definition google_prompt :: "string \<Rightarrow> string \<Rightarrow> string" where
  "google_prompt subcategory context_data =
     ''Synthesize a detailed academic summary for the subtopic '' @ [CHR 0x27] @ subcategory
     @ [CHR 0x27] @ '' using the following search results.\<newline>''
     @ ''    Do not hallucinate or include in-text citations.\<newline>''
     @ ''    \<newline>''
     @ ''    Search Results:\<newline>''
     @ ''    '' @ context_data @ ''\<newline>''
     @ ''    ''"

definition research_request :: "string \<Rightarrow> llm_request" where
  "research_request prompt =
     \<lparr>messages = [(''user'', prompt)], model = ''gpt-4o'', temperature = 0.5,
      max_tokens = 2500\<rparr>"

definition narrative_of_response ::
  "json \<Rightarrow> string list \<Rightarrow> py_error + string option \<times> string list" where
  \<comment> \<open>what \<open>research_subcategory\<close> returns once the engine has answered\<close>
  "narrative_of_response response references =
     (if truthy response then
        ebind (dict_get response ''data'' (JStr [])) (\<lambda>data.
        ebind (str_strip data) (\<lambda>body_text. Inr (Some body_text, references)))
      else Inr (None, []))"

definition synthesize ::
  "env \<Rightarrow> (string \<Rightarrow> string) \<Rightarrow> (py_error + string \<times> string list) \<Rightarrow> event list
     \<Rightarrow> (py_error + string option \<times> string list) \<times> event list" where
  \<comment> \<open>the part of \<open>research_subcategory\<close> after the loop: \<open>prompt_of\<close> builds the prompt
      from \<open>context_data\<close>.\<close>
  "synthesize e prompt_of collected tr =
     (case collected of
        Inl err \<Rightarrow> (Inl err, tr)
      | Inr (context_data, references) \<Rightarrow>
          let request = research_request (prompt_of context_data);
              response = make_llm_request e tr request
          in (narrative_of_response response references, tr @ [LLMCall request]))"

definition research_subcategory ::
  "env \<Rightarrow> string \<Rightarrow> event list
     \<Rightarrow> (py_error + string option \<times> string list) \<times> event list" where
  \<comment> \<open>\<open>research_subcategory\<close> of \<^verbatim>\<open>openAlex.py\<close>\<close>
  "research_subcategory e subcategory tr =
     (let email = openalex_email e;
          search_query = subcategory @ '' research paper'';
          search_results = openalex_search e tr search_query 5 email;
          tr1 = tr @ [OpenAlexSearch search_query 5 email]
      in if search_results = [] then (Inr (None, []), tr1)
         else synthesize e (openalex_prompt subcategory)
                (collect_records (openalex_record e) search_results [] []) tr1)"

definition research_subcategory_google ::
  "env \<Rightarrow> string \<Rightarrow> event list
     \<Rightarrow> (py_error + string option \<times> string list) \<times> event list" where
  \<comment> \<open>\<open>research_subcategory\<close> of \<^verbatim>\<open>searched_research.py\<close>\<close>
  "research_subcategory_google e subcategory tr =
     (let search_query = subcategory @ '' research paper academic source'';
          search_results = google_search e tr search_query;
          tr1 = tr @ [GoogleSearch search_query]
      in if search_results = [] then (Inr (None, []), tr1)
         else synthesize e (google_prompt subcategory)
                (collect_records (google_record e) search_results [] []) tr1)"

text \<open>
  A world for the examples: the search finds one work, whatever the query, and the
  engine gives the fixed answer \<open>response\<close>.
\<close>

definition example_work :: json where
  "example_work =
     JObj [(''id'', JStr ''https://openalex.org/W1''),
           (''doi'', JStr ''https://doi.org/10.1/x''),
           (''title'', JStr ''Solar cells''),
           (''authorships'',
              JArr [JObj [(''author'', JObj [(''display_name'', JStr ''Ada Lovelace'')])],
                    JObj [(''author'', JObj [(''display_name'', JStr ''Alan Turing'')])]]),
           (''cited_by_count'', JInt 7),
           (''publication_year'', JInt 2020)]"

definition example_env :: "json \<Rightarrow> env" where
  "example_env response =
     \<lparr>make_llm_request = (\<lambda>tr request. response),
      openalex_search = (\<lambda>tr query limit mailto. [example_work]),
      google_search = (\<lambda>tr query.
         [JObj [(''title'', JStr ''Solar cells''), (''link'', JStr ''https://example.org/s'')]]),
      openalex_email = None,
      timestamp = ''20240101_120000'',
      py_repr = (\<lambda>v. [])\<rparr>"

section \<open>Paper coalescer and document emitters\<close>

definition paper_request :: "string \<Rightarrow> llm_request" where
  "paper_request prompt =
     \<lparr>messages = [(''user'', prompt)], model = ''gpt-4o'', temperature = 0.6,
      max_tokens = 4000\<rparr>"

definition txt_prompt :: "string \<Rightarrow> string \<Rightarrow> string" where
  "txt_prompt main_topic full_research_text =
     ''Write a full research paper on the topic: '' @ [CHR 0x27] @ main_topic @ [CHR 0x27]
     @ ''.\<newline>''
     @ ''    Synthesize the following research findings for the content of the paper, tracing connections between the subtopics.\<newline>''
     @ ''    Your output should be a single, plain text document without any special formatting like Markdown. Do not include a references section.\<newline>''
     @ ''    \<newline>''
     @ ''    Research Findings:\<newline>''
     @ ''    '' @ full_research_text @ ''\<newline>''
     @ ''    \<newline>''
     @ ''    The paper should have the following sections:\<newline>''
     @ ''    - Title\<newline>''
     @ ''    - Abstract\<newline>''
     @ ''    - Introduction\<newline>''
     @ ''    - Body Sections (based on the research findings)\<newline>''
     @ ''    - Conclusion\<newline>''
     @ ''    ''"

definition markdown_prompt :: "string \<Rightarrow> string \<Rightarrow> string" where
  "markdown_prompt main_topic full_research_text =
     ''Write a full research paper on the topic: '' @ [CHR 0x27] @ main_topic @ [CHR 0x27]
     @ ''.\<newline>''
     @ ''    Synthesize the following research findings, using Markdown syntax to format the document. Do not include a references section.\<newline>''
     @ ''    \<newline>''
     @ ''    Use a single '' @ [CHR 0x27] @ ''#'' @ [CHR 0x27] @ '' for the main title, ''
     @ [CHR 0x27] @ ''##'' @ [CHR 0x27]
     @ '' for main sections (e.g., Introduction, Conclusion), and ''
     @ [CHR 0x27] @ ''###'' @ [CHR 0x27] @ '' for sub-sections.\<newline>''
     @ ''    \<newline>''
     @ ''    Research Findings:\<newline>''
     @ ''    '' @ full_research_text @ ''\<newline>''
     @ ''    ''"

definition docx_prompt :: "string \<Rightarrow> string \<Rightarrow> string" where
  "docx_prompt main_topic full_research_text =
     ''Write a full research paper in APA format on the topic: '' @ [CHR 0x27] @ main_topic
     @ [CHR 0x27] @ ''.\<newline>''
     @ ''    Synthesize the following research findings, tracing connections between the subtopics.\<newline>''
     @ ''    The output should be a single, plain text document with no special formatting. Ensure section titles are on their own lines. Do not include a references section.\<newline>''
     @ ''    \<newline>''
     @ ''    Research Findings:\<newline>''
     @ ''    '' @ full_research_text @ ''\<newline>''
     @ ''    \<newline>''
     @ ''    The paper should have the following sections, with each title on a new line:\<newline>''
     @ ''    - Title\<newline>''
     @ ''    - Abstract\<newline>''
     @ ''    - Introduction\<newline>''
     @ ''    - Body Sections (based on the research findings)\<newline>''
     @ ''    - Conclusion\<newline>''
     @ ''    ''"

fun str_concat :: "json \<Rightarrow> string \<Rightarrow> py_error + string" where
  \<comment> \<open>\<open>v + s\<close> for a string \<open>s\<close>: a \<open>TypeError\<close> unless \<open>v\<close> is a string.\<close>
  "str_concat (JStr p) s = Inr (p @ s)"
| "str_concat _ s = Inl TypeError"

fun str_split_lines :: "json \<Rightarrow> py_error + string list" where
  \<comment> \<open>\<open>v.split('\n')\<close>: only a string has the method.\<close>
  "str_split_lines (JStr s) = Inr (split_lines s)"
| "str_split_lines _ = Inl AttributeError"

definition generate_txt_document ::
  "env \<Rightarrow> string \<Rightarrow> string list \<Rightarrow> string list \<Rightarrow> event list
     \<Rightarrow> (py_error + string option) \<times> event list" where
  "generate_txt_document e main_topic research_findings all_references tr =
     (let full_research_text = join ''\<newline>\<newline>'' research_findings;
          request = paper_request (txt_prompt main_topic full_research_text);
          response = make_llm_request e tr request;
          tr1 = tr @ [LLMCall request]
      in if truthy response then
           (case dict_get response ''data'' (JStr []) of
              Inl err \<Rightarrow> (Inl err, tr1)
            | Inr plain_text_paper \<Rightarrow>
                if \<not> truthy plain_text_paper then (Inr None, tr1)
                else
                  let output_filename = ''research_paper_'' @ timestamp e @ ''.txt'';
                      unique_references = consolidate all_references
                  in (case str_concat plain_text_paper
                             (''\<newline>\<newline>References\<newline>\<newline>''
                              @ join ''\<newline>'' unique_references) of
                        Inl err \<Rightarrow> (Inl err, tr1)
                      | Inr final_text \<Rightarrow>
                          (Inr (Some output_filename),
                           tr1 @ [FileWrite output_filename final_text])))
         else (Inr None, tr1))"

definition generate_markdown_document ::
  "env \<Rightarrow> string \<Rightarrow> string list \<Rightarrow> string list \<Rightarrow> event list
     \<Rightarrow> (py_error + string option) \<times> event list" where
  "generate_markdown_document e main_topic research_findings all_references tr =
     (let full_research_text = join ''\<newline>\<newline>'' research_findings;
          request = paper_request (markdown_prompt main_topic full_research_text);
          response = make_llm_request e tr request;
          tr1 = tr @ [LLMCall request]
      in if truthy response then
           (case dict_get response ''data'' (JStr []) of
              Inl err \<Rightarrow> (Inl err, tr1)
            | Inr markdown_paper \<Rightarrow>
                if \<not> truthy markdown_paper then (Inr None, tr1)
                else
                  let output_filename = ''research_paper_'' @ timestamp e @ ''.md'';
                      unique_references = consolidate all_references;
                      references_markdown =
                        ''\<newline>\<newline>## References\<newline>\<newline>''
                        @ join ''\<newline>'' (map (\<lambda>ref. ''- '' @ ref) unique_references)
                  in (case str_concat markdown_paper references_markdown of
                        Inl err \<Rightarrow> (Inl err, tr1)
                      | Inr final_text \<Rightarrow>
                          (Inr (Some output_filename),
                           tr1 @ [FileWrite output_filename final_text])))
         else (Inr None, tr1))"

definition py_lower_char :: "char \<Rightarrow> char" where
  \<comment> \<open>\<open>str.lower\<close> on one character below code point 256: the ASCII capitals and the
      Latin-1 capitals (all of 192 to 222 but the multiplication sign, 215) move up by 32.\<close>
  "py_lower_char c =
     (let n = of_char c :: nat
      in if (65 \<le> n \<and> n \<le> 90) \<or> (192 \<le> n \<and> n \<le> 222 \<and> n \<noteq> 215)
         then char_of (n + 32) else c)"

definition py_lower :: "string \<Rightarrow> string" where
  "py_lower s = map py_lower_char s"

definition is_ascii_upper :: "char \<Rightarrow> bool" where
  "is_ascii_upper c = (65 \<le> (of_char c :: nat) \<and> (of_char c :: nat) \<le> 90)"

definition is_ascii_lower :: "char \<Rightarrow> bool" where
  "is_ascii_lower c = (97 \<le> (of_char c :: nat) \<and> (of_char c :: nat) \<le> 122)"

definition re_match_heading :: "string \<Rightarrow> bool" where
  \<comment> \<open>\<open>re.match(r'^[A-Z][a-zA-Z\s,]+$', line)\<close> on a line without a newline\<close>
  "re_match_heading line =
     (case line of
        [] \<Rightarrow> False
      | c # rest \<Rightarrow>
          is_ascii_upper c \<and> rest \<noteq> []
          \<and> list_all (\<lambda>x. is_ascii_lower x \<or> is_ascii_upper x \<or> py_isspace x \<or> x = CHR '','')
               rest)"

fun add_dynamic_headings :: "string list \<Rightarrow> docx_block list" where
  \<comment> \<open>the loop of \<open>add_dynamic_headings\<close> over the lines of the paper: the blocks it adds
      to the document\<close>
  "add_dynamic_headings [] = []"
| "add_dynamic_headings (l # lines) =
     (let line = strip l
      in if line = [] then add_dynamic_headings lines
         else if py_lower line \<in> set [''title'', ''abstract'', ''introduction'', ''conclusion'']
           then Heading 1 CENTER line # add_dynamic_headings lines
         else if re_match_heading line
           then Heading 2 LEFT line # add_dynamic_headings lines
         else BodyParagraph line # add_dynamic_headings lines)"

definition generate_docx_document ::
  "env \<Rightarrow> string \<Rightarrow> string list \<Rightarrow> string list \<Rightarrow> event list
     \<Rightarrow> (py_error + string option) \<times> event list" where
  "generate_docx_document e main_topic research_findings all_references tr =
     (let full_research_text = join ''\<newline>\<newline>'' research_findings;
          request = paper_request (docx_prompt main_topic full_research_text);
          response = make_llm_request e tr request;
          tr1 = tr @ [LLMCall request]
      in if truthy response then
           (case dict_get response ''data'' (JStr []) of
              Inl err \<Rightarrow> (Inl err, tr1)
            | Inr plain_text_paper \<Rightarrow>
                if \<not> truthy plain_text_paper then (Inr None, tr1)
                else
                  (case str_split_lines plain_text_paper of
                     Inl err \<Rightarrow> (Inl err, tr1)
                   | Inr lines \<Rightarrow>
                       let body = add_dynamic_headings lines;
                           unique_references = consolidate all_references;
                           refs = (if unique_references \<noteq> []
                                   then Heading 1 CENTER ''References''
                                        # map ReferenceParagraph unique_references
                                   else []);
                           output_filename = ''research_paper_'' @ timestamp e @ ''.docx''
                       in (Inr (Some output_filename),
                           tr1 @ [DocxSave output_filename (body @ refs)])))
         else (Inr None, tr1))"

section \<open>The pipeline: \<open>main\<close>\<close>

datatype exit_reason =
    NoApiKey | NoTopic | InvalidFormat | NoSubcategories | NoResearchData | NoDocument
  | Unexpected py_error

datatype run_result = Exit1 exit_reason | Saved string

type_synonym researcher =
  "env \<Rightarrow> string \<Rightarrow> event list \<Rightarrow> (py_error + string option \<times> string list) \<times> event list"

fun research_loop ::
  "researcher \<Rightarrow> env \<Rightarrow> string list \<Rightarrow> string list \<Rightarrow> string list \<Rightarrow> event list
     \<Rightarrow> (py_error + string list \<times> string list) \<times> event list" where
  \<comment> \<open>the loop \<open>for subcategory in subcategories\<close> of \<open>main\<close>, from the current
      \<open>all_research_findings\<close> and \<open>all_references\<close>; an exception ends it.\<close>
  "research_loop research e [] all_research_findings all_references tr =
     (Inr (all_research_findings, all_references), tr)"
| "research_loop research e (subcategory # subcategories) all_research_findings
     all_references tr =
     (case research e subcategory tr of
        (Inl err, tr1) \<Rightarrow> (Inl err, tr1)
      | (Inr (None, references), tr1) \<Rightarrow>
          research_loop research e subcategories all_research_findings all_references tr1
      | (Inr (Some research_text, references), tr1) \<Rightarrow>
          if research_text \<noteq> []
          then research_loop research e subcategories
                 (all_research_findings @ [research_text]) (all_references @ references) tr1
          else research_loop research e subcategories all_research_findings all_references
                 tr1)"

definition coalesce_and_save ::
  "env \<Rightarrow> string \<Rightarrow> string \<Rightarrow> string list \<Rightarrow> string list \<Rightarrow> event list
     \<Rightarrow> run_result \<times> event list" where
  \<comment> \<open>step 3 of \<open>main\<close>, for a format that passed the check: the generator of the format
      and what \<open>main\<close> does with its result.\<close>
  "coalesce_and_save e doc_format main_topic all_research_findings all_references tr =
     (case (if doc_format = ''txt''
            then generate_txt_document e main_topic all_research_findings all_references tr
            else if doc_format = ''md''
            then generate_markdown_document e main_topic all_research_findings
                   all_references tr
            else generate_docx_document e main_topic all_research_findings all_references tr)
      of (Inl err, tr1) \<Rightarrow> (Exit1 (Unexpected err), tr1)
       | (Inr None, tr1) \<Rightarrow> (Exit1 NoDocument, tr1)
       | (Inr (Some final_doc_path), tr1) \<Rightarrow>
           if final_doc_path \<noteq> [] then (Saved final_doc_path, tr1)
           else (Exit1 NoDocument, tr1))"

definition main_with ::
  "researcher \<Rightarrow> env \<Rightarrow> string option \<Rightarrow> string \<Rightarrow> string \<Rightarrow> event list
     \<Rightarrow> run_result \<times> event list" where
  \<comment> \<open>\<open>main\<close>: \<open>api_key\<close> is the environment variable \<open>AMPLIFY_API_KEY\<close>, \<open>main_topic\<close>
      and \<open>format_input\<close> are the two lines read from the user. Every \<open>Exit1\<close> is an exit
      with status 1; an exception is caught by the handler of \<open>main\<close>, which exits with
      status 1 too.\<close>
  "main_with research e api_key main_topic format_input tr =
     (if api_key = None \<or> api_key = Some [] then (Exit1 NoApiKey, tr)
      else if main_topic = [] then (Exit1 NoTopic, tr)
      else
        let doc_format = py_lower format_input
        in if doc_format \<notin> set [''txt'', ''md'', ''docx''] then (Exit1 InvalidFormat, tr)
           else
             (case generate_subcategories e main_topic tr of
                (Inl err, tr1) \<Rightarrow> (Exit1 (Unexpected err), tr1)
              | (Inr None, tr1) \<Rightarrow> (Exit1 NoSubcategories, tr1)
              | (Inr (Some subcategories), tr1) \<Rightarrow>
                  if subcategories = [] then (Exit1 NoSubcategories, tr1)
                  else
                    (case research_loop research e subcategories [] [] tr1 of
                       (Inl err, tr2) \<Rightarrow> (Exit1 (Unexpected err), tr2)
                     | (Inr (all_research_findings, all_references), tr2) \<Rightarrow>
                         if all_research_findings = [] then (Exit1 NoResearchData, tr2)
                         else coalesce_and_save e doc_format main_topic
                                all_research_findings all_references tr2)))"

definition main :: "env \<Rightarrow> string option \<Rightarrow> string \<Rightarrow> string \<Rightarrow> event list
     \<Rightarrow> run_result \<times> event list" where
  \<comment> \<open>\<open>main\<close> of \<^verbatim>\<open>openAlex.py\<close>\<close>
  "main = main_with research_subcategory"

definition main_google :: "env \<Rightarrow> string option \<Rightarrow> string \<Rightarrow> string \<Rightarrow> event list
     \<Rightarrow> run_result \<times> event list" where
  \<comment> \<open>\<open>main\<close> of \<^verbatim>\<open>searched_research.py\<close>\<close>
  "main_google = main_with research_subcategory_google"







text \<open>
  A world in which one record of a search result is incomplete: the engine proposes the
  subcategories \<open>Sun\<close> and \<open>Wind\<close> and answers every later call; the search for \<open>Wind\<close>
  finds a second work whose author has no display name (\<open>null\<close> in the JSON).
\<close>

definition incomplete_work :: json where
  "incomplete_work =
     JObj [(''id'', JStr ''https://openalex.org/W2''),
           (''doi'', JNull),
           (''title'', JStr ''Wind farms''),
           (''authorships'',
              JArr [JObj [(''author'',
                     JObj [(''id'', JStr ''https://openalex.org/A9''),
                           (''display_name'', JNull)])]]),
           (''cited_by_count'', JInt 0),
           (''publication_year'', JInt 2021)]"

definition answering_engine :: "event list \<Rightarrow> llm_request \<Rightarrow> json" where
  "answering_engine tr request =
     (if max_tokens request = 200 then JObj [(''data'', JStr ''1. Sun\<newline>2. Wind'')]
      else if max_tokens request = 2500 then JObj [(''data'', JStr ''Sunlight is abundant.'')]
      else JObj [(''data'', JStr ''# Energy'')])"

definition incomplete_env :: env where
  "incomplete_env =
     (example_env JNull)
       \<lparr>make_llm_request := answering_engine,
        openalex_search := (\<lambda>tr query limit mailto.
           if query = ''Wind research paper'' then [example_work, incomplete_work]
           else [example_work])\<rparr>"

section \<open>Properties of the string functions\<close>

lemma strip_where_prefix: "\<exists>zs. dropWhile P s = strip_where P s @ zs"
proof -
  have "rev (dropWhile P s) =
      takeWhile P (rev (dropWhile P s)) @ dropWhile P (rev (dropWhile P s))"
    by simp
  then have "dropWhile P s =
      rev (dropWhile P (rev (dropWhile P s))) @ rev (takeWhile P (rev (dropWhile P s)))"
    by (metis rev_append rev_rev_ident)
  then show ?thesis unfolding strip_where_def by blast
qed

lemma strip_where_hd: "strip_where P s \<noteq> [] \<Longrightarrow> \<not> P (hd (strip_where P s))"
proof -
  assume ne: "strip_where P s \<noteq> []"
  obtain zs where z: "dropWhile P s = strip_where P s @ zs"
    using strip_where_prefix by blast
  then have "hd (dropWhile P s) = hd (strip_where P s)" using ne by simp
  moreover have "dropWhile P s \<noteq> []" using z ne by simp
  ultimately show ?thesis using hd_dropWhile by metis
qed

lemma strip_where_last: "strip_where P s \<noteq> [] \<Longrightarrow> \<not> P (last (strip_where P s))"
  unfolding strip_where_def
  by (metis hd_dropWhile last_rev rev_is_Nil_conv)

lemma strip_where_fixed:
  assumes "t = [] \<or> (\<not> P (hd t) \<and> \<not> P (last t))"
  shows "strip_where P t = t"
proof (cases "t = []")
  case True
  then show ?thesis by (simp add: strip_where_def)
next
  case False
  with assms have h: "\<not> P (hd t)" and l: "\<not> P (last t)" by auto
  have 1: "dropWhile P t = t" using False h by (cases t) auto
  have "rev t \<noteq> []" using False by simp
  moreover have "hd (rev t) = last t" using False by (simp add: hd_rev)
  ultimately have 2: "dropWhile P (rev t) = rev t"
    using l by (simp add: dropWhile_eq_self_iff)
  show ?thesis by (simp add: strip_where_def 1 2)
qed

lemma strip_where_idem: "strip_where P (strip_where P s) = strip_where P s"
  by (rule strip_where_fixed) (use strip_where_hd strip_where_last in blast)

section \<open>Properties of the consolidation\<close>

lemma set_consolidate:
  "set (consolidate X) = {strip r |r. r \<in> set X \<and> strip r \<noteq> []}"
  by (auto simp: consolidate_def)

text \<open>
  C3. The consolidation trims every entry, drops the entries that are empty once trimmed,
  keeps one copy of each trimmed string and returns them in strictly ascending
  lexicographic order; on the three references of the specification's example it returns
  the two distinct ones.
\<close>

theorem consolidate_trims_dedups_sorts:
  "set (consolidate X) = {strip r |r. r \<in> set X \<and> strip r \<noteq> []}
   \<and> distinct (consolidate X)
   \<and> sorted_wrt (<) (consolidate X)
   \<and> consolidate [''A. 2020. T.'', '' A. 2020. T. '', ''B. 2019. U.'']
       = [''A. 2020. T.'', ''B. 2019. U.'']"
proof -
  have "consolidate [''A. 2020. T.'', '' A. 2020. T. '', ''B. 2019. U.'']
       = [''A. 2020. T.'', ''B. 2019. U.'']"
    by (simp add: consolidate_def strip_def strip_where_def py_isspace_def
        sorted_list_of_set_sort_remdups)
  moreover have "distinct (consolidate X)" "sorted_wrt (<) (consolidate X)"
    by (simp_all add: consolidate_def)
  ultimately show ?thesis using set_consolidate by blast
qed

text \<open>
  C4. Consolidating an already consolidated list changes nothing.
\<close>

theorem consolidate_idempotent: "consolidate (consolidate X) = consolidate X"
proof -
  have fx: "strip r = r" if "r \<in> set (consolidate X)" for r
    using that by (auto simp: set_consolidate strip_def strip_where_idem)
  have ne: "r \<noteq> []" if "r \<in> set (consolidate X)" for r
    using that by (auto simp: set_consolidate)
  have "strip ` {r \<in> set (consolidate X). strip r \<noteq> []} = set (consolidate X)"
  proof (rule set_eqI)
    fix x
    show "x \<in> strip ` {r \<in> set (consolidate X). strip r \<noteq> []}
        \<longleftrightarrow> x \<in> set (consolidate X)"
      using fx ne by (metis (mono_tags, lifting) image_iff mem_Collect_eq)
  qed
  then show ?thesis
    by (simp add: consolidate_def[of "consolidate X"]) (simp add: consolidate_def)
qed

section \<open>Properties of the decomposer\<close>

lemmas decomposer_eval = subcategories_of_response_def ebind_def split_lines_def strip_def
  strip_where_def strip_chars_def re_match_numbered_def py_isdigit_def py_isspace_def

lemma length_parse_lines:
  "length (parse_lines lines)
     = length (filter (\<lambda>l. re_match_numbered (strip l) \<noteq> None) lines)"
  by (induction lines) (auto split: option.splits)

lemma parse_lines_Nil_iff:
  "parse_lines lines = [] \<longleftrightarrow> (\<forall>l\<in>set lines. re_match_numbered (strip l) = None)"
  by (induction lines) (auto split: option.splits)

lemma subcategories_of_text:
  assumes "truthy response" and "dict_get response ''data'' (JStr []) = Inr (JStr raw)"
  shows "subcategories_of_response response =
      (if parse_lines (split_lines (strip raw)) = [] then Inr None
       else Inr (Some (parse_lines (split_lines (strip raw)))))"
  using assms by (simp add: subcategories_of_response_def ebind_def)

lemma subcategories_never_empty: "subcategories_of_response response \<noteq> Inr (Some [])"
  by (auto simp: subcategories_of_response_def ebind_def Let_def split: sum.splits)

text \<open>
  C2. On the response text of the specification's example the decomposer returns the
  labels Foo, Baz and Qux, in that order: the colon clause and the emphasis markers are
  removed and the line without a number is skipped.
\<close>

theorem decomposer_example:
  "subcategories_of_response
     (JObj [(''data'', JStr ''1. Foo: bar\<newline>2. **Baz**\<newline>not a line\<newline>3. Qux'')])
   = Inr (Some [''Foo'', ''Baz'', ''Qux''])
   \<and> fst (generate_subcategories
       (e\<lparr>make_llm_request := \<lambda>tr request.
            JObj [(''data'', JStr ''1. Foo: bar\<newline>2. **Baz**\<newline>not a line\<newline>3. Qux'')]\<rparr>)
       topic tr)
     = Inr (Some [''Foo'', ''Baz'', ''Qux''])"
  by (simp add: generate_subcategories_def decomposer_eval)

text \<open>
  C6. The decomposer never returns an empty list of subcategories. When the engine's
  response carries a text, the decomposer fails exactly when no line of the text matches
  the numbered pattern, and when it succeeds it returns one label for each matching line,
  however many there are.
\<close>

theorem decomposer_zero_matches_fails:
  "subcategories_of_response response \<noteq> Inr (Some [])
   \<and> (truthy response \<and> dict_get response ''data'' (JStr []) = Inr (JStr raw) \<longrightarrow>
       (subcategories_of_response response = Inr None
          \<longleftrightarrow> (\<forall>line\<in>set (split_lines (strip raw)). re_match_numbered (strip line) = None))
       \<and> (\<forall>subs. subcategories_of_response response = Inr (Some subs) \<longrightarrow>
            length subs = length (filter (\<lambda>l. re_match_numbered (strip l) \<noteq> None)
                                     (split_lines (strip raw)))))"
proof -
  have "subcategories_of_response response = Inr None
          \<longleftrightarrow> (\<forall>line\<in>set (split_lines (strip raw)). re_match_numbered (strip line) = None)"
    if "truthy response" "dict_get response ''data'' (JStr []) = Inr (JStr raw)"
    using subcategories_of_text[OF that] by (simp add: parse_lines_Nil_iff)
  moreover have "length subs = length (filter (\<lambda>l. re_match_numbered (strip l) \<noteq> None)
                                     (split_lines (strip raw)))"
    if "truthy response" "dict_get response ''data'' (JStr []) = Inr (JStr raw)"
      "subcategories_of_response response = Inr (Some subs)" for subs
    using subcategories_of_text[OF that(1,2)] that(3)
    by (auto simp: length_parse_lines split: if_splits)
  ultimately show ?thesis using subcategories_never_empty by blast
qed

theorem decomposer_zero_matches_fails_witness:
  "subcategories_of_response (JObj [(''data'', JStr ''no list\<newline>2 apples. 3'')]) = Inr None
   \<and> subcategories_of_response
       (JObj [(''data'', JStr ''1. a\<newline>2. b\<newline>3. c\<newline>4. d\<newline>5. e\<newline>6. f\<newline>7. g'')])
     = Inr (Some [''a'', ''b'', ''c'', ''d'', ''e'', ''f'', ''g''])
   \<and> length (filter (\<lambda>l. re_match_numbered (strip l) \<noteq> None)
       (split_lines (strip ''1. a\<newline>2. b\<newline>3. c\<newline>4. d\<newline>5. e\<newline>6. f\<newline>7. g''))) = 7"
proof -
  let ?r0 = "JObj [(''data'', JStr ''no list\<newline>2 apples. 3'')]"
  let ?t7 = "''1. a\<newline>2. b\<newline>3. c\<newline>4. d\<newline>5. e\<newline>6. f\<newline>7. g''"
  have none: "\<forall>line\<in>set (split_lines (strip ''no list\<newline>2 apples. 3'')).
      re_match_numbered (strip line) = None"
    by (simp add: decomposer_eval)
  have 0: "subcategories_of_response ?r0 = Inr None"
    using decomposer_zero_matches_fails[of ?r0 "''no list\<newline>2 apples. 3''"] none by simp
  have 7: "subcategories_of_response (JObj [(''data'', JStr ?t7)])
      = Inr (Some [''a'', ''b'', ''c'', ''d'', ''e'', ''f'', ''g''])"
    by (simp add: decomposer_eval)
  have "length (filter (\<lambda>l. re_match_numbered (strip l) \<noteq> None) (split_lines (strip ?t7)))
      = length [''a'', ''b'', ''c'', ''d'', ''e'', ''f'', ''g'']"
    using decomposer_zero_matches_fails[of "JObj [(''data'', JStr ?t7)]" ?t7] 7 by simp
  then show ?thesis using 0 7 by simp
qed

lemma strip_where_parts:
  "s = takeWhile P s @ strip_where P s @ rev (takeWhile P (rev (dropWhile P s)))"
proof -
  have "rev (dropWhile P s) =
      takeWhile P (rev (dropWhile P s)) @ dropWhile P (rev (dropWhile P s))"
    by simp
  then have "dropWhile P s =
      strip_where P s @ rev (takeWhile P (rev (dropWhile P s)))"
    unfolding strip_where_def by (metis rev_append rev_rev_ident)
  then show ?thesis by (metis takeWhile_dropWhile_id)
qed

lemma takeWhile_eq_replicate: "\<exists>n. takeWhile (\<lambda>c. c = a) xs = replicate n a"
proof (induction xs)
  case Nil
  then show ?case by simp
next
  case (Cons x xs)
  then obtain n where "takeWhile (\<lambda>c. c = a) xs = replicate n a" by blast
  then have "takeWhile (\<lambda>c. c = a) (x # xs) = replicate (if x = a then Suc n else 0) a"
    by simp
  then show ?case by blast
qed

text \<open>
  C10. The label cleanup removes every leading and every trailing asterisk, paired or
  not, and nothing else; a numbered line whose content is empty or made of asterisks
  gives the empty label, which is kept, so a successful decomposition may contain an
  empty label.
\<close>

theorem label_cleanup_strips_all_asterisks:
  "(\<exists>i j. s = replicate i (CHR ''*'') @ strip_chars ''**'' s @ replicate j (CHR ''*''))
   \<and> (\<nexists>t. strip_chars ''**'' s = CHR ''*'' # t)
   \<and> (\<nexists>t. strip_chars ''**'' s = t @ [CHR ''*''])
   \<and> strip_chars ''**'' ''*x***'' = ''x''
   \<and> subcategories_of_response (JObj [(''data'', JStr ''1. '')]) = Inr (Some [''''])
   \<and> subcategories_of_response (JObj [(''data'', JStr ''1. **'')]) = Inr (Some [''''])
   \<and> subcategories_of_response (JObj [(''data'', JStr ''1. A\<newline>2. ***:x'')])
       = Inr (Some [''A'', ''''])"
proof -
  let ?P = "\<lambda>c. c = CHR ''*''"
  have eq: "strip_chars ''**'' s = strip_where ?P s"
    by (simp add: strip_chars_def)
  obtain i where i: "takeWhile ?P s = replicate i (CHR ''*'')"
    using takeWhile_eq_replicate[of "CHR ''*''" s] by auto
  obtain j where "takeWhile ?P (rev (dropWhile ?P s)) = replicate j (CHR ''*'')"
    using takeWhile_eq_replicate[of "CHR ''*''" "rev (dropWhile ?P s)"] by auto
  then have j: "rev (takeWhile ?P (rev (dropWhile ?P s))) = replicate j (CHR ''*'')"
    by simp
  have 1: "\<exists>i j. s = replicate i (CHR ''*'') @ strip_chars ''**'' s @ replicate j (CHR ''*'')"
    using strip_where_parts[of s ?P] i j eq by metis
  have 2: "\<nexists>t. strip_chars ''**'' s = CHR ''*'' # t"
    using strip_where_hd[of ?P s] eq by auto
  have 3: "\<nexists>t. strip_chars ''**'' s = t @ [CHR ''*'']"
    using strip_where_last[of ?P s] eq by auto
  have 4: "strip_chars ''**'' ''*x***'' = ''x''"
    by (simp add: strip_chars_def strip_where_def)
  have 5: "subcategories_of_response (JObj [(''data'', JStr ''1. '')]) = Inr (Some [''''])"
    by (simp add: decomposer_eval)
  have 6: "subcategories_of_response (JObj [(''data'', JStr ''1. **'')]) = Inr (Some [''''])"
    by (simp add: decomposer_eval)
  have 7: "subcategories_of_response (JObj [(''data'', JStr ''1. A\<newline>2. ***:x'')])
       = Inr (Some [''A'', ''''])"
    by (simp add: decomposer_eval)
  show ?thesis using 1 2 3 4 5 6 7 by blast
qed

section \<open>Properties of the subcategory researcher\<close>

lemma collect_records_emap:
  "collect_records record results context_data references =
     ebind (emap record results) (\<lambda>ps.
       Inr (context_data @ concat (map snd ps), references @ map fst ps))"
proof (induction results arbitrary: context_data references)
  case Nil
  then show ?case by (simp add: ebind_def)
next
  case (Cons r rs)
  then show ?case by (auto simp: ebind_def split: sum.splits prod.splits)
qed

lemma emap_Inr_nth:
  "emap f xs = Inr ys \<Longrightarrow> length ys = length xs \<and> (\<forall>i<length xs. f (xs ! i) = Inr (ys ! i))"
proof (induction xs arbitrary: ys)
  case Nil
  then show ?case by simp
next
  case (Cons x xs)
  from Cons.prems obtain y ys' where y: "f x = Inr y" and ys': "emap f xs = Inr ys'"
    and ys: "ys = y # ys'"
    by (auto simp: ebind_def split: sum.splits)
  from Cons.IH[OF ys'] have "length ys' = length xs"
    and n: "\<forall>i<length xs. f (xs ! i) = Inr (ys' ! i)" by auto
  then show ?case using y ys by (auto simp: nth_Cons split: nat.splits)
qed

lemma emap_as_str_JStr: "emap as_str (map JStr names) = Inr names"
  by (induction names) (auto simp: ebind_def)

lemma openalex_record_engine:
  "openalex_record (e\<lparr>make_llm_request := f\<rparr>) = openalex_record e"
  by (rule ext) (simp add: openalex_record_def Let_def cong: if_cong)

lemma research_eval:
  "dict_get (JObj kvs) k d = Inr (case map_of kvs k of None \<Rightarrow> d | Some v \<Rightarrow> v)"
  by simp

text \<open>
  In the OpenAlex variant the reference of a record whose authors all carry a display
  name is the author names joined by
  commas, the publication year in parentheses (\<open>n.d.\<close> when the record has no such
  field), the title followed by a period, and the DOI after a space when the record has
  one. The loop builds one reference for each record, in order; neither the references
  nor the fact that the engine is then called depend on what the engine answers.
\<close>

theorem openalex_reference_per_record:
  "(result = JObj kvs
      \<and> (case map_of kvs ''authorships'' of None \<Rightarrow> JArr [] | Some a \<Rightarrow> a) = JArr items
      \<and> emap author_display_name items = Inr (map JStr names) \<longrightarrow>
      (\<exists>block. openalex_record e result =
         Inr (join '', '' names
              @ '' ('' @ (case map_of kvs ''publication_year'' of
                            None \<Rightarrow> ''n.d.'' | Some y \<Rightarrow> py_str (py_repr e) y)
              @ ''). '' @ py_str (py_repr e)
                            (case map_of kvs ''title'' of None \<Rightarrow> JNull | Some t \<Rightarrow> t)
              @ ''.''
              @ (case map_of kvs ''doi'' of
                   None \<Rightarrow> []
                 | Some d \<Rightarrow> if truthy d then '' '' @ py_str (py_repr e) d else []),
              block)))
   \<and> (collect_records (openalex_record e) results [] [] = Inr (context_data, references) \<longrightarrow>
        length references = length results
        \<and> (\<forall>i<length results. \<exists>block.
              openalex_record e (results ! i) = Inr (references ! i, block)))
   \<and> collect_records (openalex_record (e\<lparr>make_llm_request := f\<rparr>)) results [] []
       = collect_records (openalex_record e) results [] []
   \<and> (collect_records (openalex_record e) results [] [] = Inr (context_data, references) \<longrightarrow>
        snd (synthesize e prompt_of (Inr (context_data, references)) tr)
          = tr @ [LLMCall (research_request (prompt_of context_data))])"
proof -
  have A: "\<exists>block. openalex_record e result =
         Inr (join '', '' names
              @ '' ('' @ (case map_of kvs ''publication_year'' of
                            None \<Rightarrow> ''n.d.'' | Some y \<Rightarrow> py_str (py_repr e) y)
              @ ''). '' @ py_str (py_repr e)
                            (case map_of kvs ''title'' of None \<Rightarrow> JNull | Some t \<Rightarrow> t)
              @ ''.''
              @ (case map_of kvs ''doi'' of
                   None \<Rightarrow> []
                 | Some d \<Rightarrow> if truthy d then '' '' @ py_str (py_repr e) d else []),
              block)"
    if r: "result = JObj kvs"
      and a: "(case map_of kvs ''authorships'' of None \<Rightarrow> JArr [] | Some a \<Rightarrow> a) = JArr items"
      and n: "emap author_display_name items = Inr (map JStr names)"
  proof -
    have j: "str_join '', '' (map JStr names) = Inr (join '', '' names)"
      by (simp add: str_join_def emap_as_str_JStr ebind_def)
    show ?thesis
      unfolding openalex_record_def r research_eval
      by (simp add: ebind_def a n j Let_def py_str_def split: option.splits)
  qed
  have B: "length references = length results
        \<and> (\<forall>i<length results. \<exists>block.
              openalex_record e (results ! i) = Inr (references ! i, block))"
    if c: "collect_records (openalex_record e) results [] [] = Inr (context_data, references)"
  proof -
    from c obtain ps where ps: "emap (openalex_record e) results = Inr ps"
      and refs: "references = map fst ps"
      by (auto simp: collect_records_emap ebind_def split: sum.splits)
    from emap_Inr_nth[OF ps] have l: "length ps = length results"
      and n: "\<forall>i<length results. openalex_record e (results ! i) = Inr (ps ! i)" by auto
    have "\<exists>block. openalex_record e (results ! i) = Inr (references ! i, block)"
      if "i < length results" for i
    proof -
      have "openalex_record e (results ! i) = Inr (fst (ps ! i), snd (ps ! i))"
        using n that by simp
      moreover have "references ! i = fst (ps ! i)" using refs l that by simp
      ultimately show ?thesis by metis
    qed
    then show ?thesis using refs l by simp
  qed
  have C: "collect_records (openalex_record (e\<lparr>make_llm_request := f\<rparr>)) results [] []
       = collect_records (openalex_record e) results [] []"
    by (simp add: openalex_record_engine)
  have D: "snd (synthesize e prompt_of (Inr (context_data, references)) tr)
          = tr @ [LLMCall (research_request (prompt_of context_data))]"
    by (simp add: synthesize_def Let_def)
  show ?thesis using A B C D by blast
qed

theorem openalex_reference_per_record_witness:
  "(\<exists>block. openalex_record (example_env JNull) example_work =
      Inr (''Ada Lovelace, Alan Turing (2020). Solar cells. https://doi.org/10.1/x'', block))
   \<and> (\<exists>context_data.
        collect_records (openalex_record (example_env JNull)) [example_work, JObj []] [] []
          = Inr (context_data,
                 [''Ada Lovelace, Alan Turing (2020). Solar cells. https://doi.org/10.1/x'',
                  '' (n.d.). None.'']))"
proof -
  let ?kvs = "[(''id'', JStr ''https://openalex.org/W1''),
           (''doi'', JStr ''https://doi.org/10.1/x''),
           (''title'', JStr ''Solar cells''),
           (''authorships'',
              JArr [JObj [(''author'', JObj [(''display_name'', JStr ''Ada Lovelace'')])],
                    JObj [(''author'', JObj [(''display_name'', JStr ''Alan Turing'')])]]),
           (''cited_by_count'', JInt 7),
           (''publication_year'', JInt 2020)]"
  let ?items = "[JObj [(''author'', JObj [(''display_name'', JStr ''Ada Lovelace'')])],
                 JObj [(''author'', JObj [(''display_name'', JStr ''Alan Turing'')])]]"
  have 1: "example_work = JObj ?kvs" by (simp add: example_work_def)
  have 2: "(case map_of ?kvs ''authorships'' of None \<Rightarrow> JArr [] | Some a \<Rightarrow> a) = JArr ?items"
    by simp
  have 3: "emap author_display_name ?items = Inr (map JStr [''Ada Lovelace'', ''Alan Turing''])"
    by (simp add: author_display_name_def ebind_def)
  have "\<exists>block. openalex_record (example_env JNull) example_work =
      Inr (''Ada Lovelace, Alan Turing (2020). Solar cells. https://doi.org/10.1/x'', block)"
    using openalex_reference_per_record[of example_work ?kvs ?items
        "[''Ada Lovelace'', ''Alan Turing'']" "example_env JNull"] 1 2 3
    by (simp add: py_str_def str_int_def digits.simps)
  moreover have "\<exists>context_data.
        collect_records (openalex_record (example_env JNull)) [example_work, JObj []] [] []
          = Inr (context_data,
                 [''Ada Lovelace, Alan Turing (2020). Solar cells. https://doi.org/10.1/x'',
                  '' (n.d.). None.''])"
    by (simp add: openalex_record_def example_work_def example_env_def ebind_def
        author_display_name_def str_join_def py_str_def str_int_def digits.simps)
  ultimately show ?thesis by blast
qed

lemmas researcher_eval = research_subcategory_def synthesize_def narrative_of_response_def
  research_request_def example_env_def example_work_def openalex_record_def ebind_def
  author_display_name_def str_join_def py_str_def str_int_def digits.simps Let_def strip_def
  strip_where_def py_isspace_def

text \<open>
  C9. The claim holds of a record whose authors all have a display name, and fails on a
  record the search can return: when one author of one record has no display name, the
  join of the author names raises \<open>TypeError\<close>, and the researcher returns no reference
  at all, not even for the complete record found by the same search.
\<close>

theorem openalex_reference_missing_display_name:
  "fst (research_subcategory incomplete_env ''Sun'' [])
     = Inr (Some ''Sunlight is abundant.'',
            [''Ada Lovelace, Alan Turing (2020). Solar cells. https://doi.org/10.1/x''])
   \<and> openalex_search incomplete_env [] ''Wind research paper'' 5 None
     = [example_work, incomplete_work]
   \<and> openalex_record incomplete_env incomplete_work = Inl TypeError
   \<and> fst (research_subcategory incomplete_env ''Wind'' []) = Inl TypeError"
  by (simp add: researcher_eval incomplete_env_def incomplete_work_def answering_engine_def)

lemma synthesize_falsy:
  "\<not> truthy (make_llm_request e tr (research_request (prompt_of context_data))) \<Longrightarrow>
   fst (synthesize e prompt_of (Inr (context_data, references)) tr) = Inr (None, [])"
  by (simp add: synthesize_def narrative_of_response_def Let_def)

text \<open>
  C5. When the search returns no record, the researcher returns no narrative and no
  reference; the only event is the search, so the engine is not called, and the outcome
  is the same whatever the engine would answer. This holds in both variants.
\<close>

theorem research_without_evidence:
  "(openalex_search e tr (subcategory @ '' research paper'') 5 (openalex_email e) = [] \<longrightarrow>
      research_subcategory e subcategory tr =
        (Inr (None, []),
         tr @ [OpenAlexSearch (subcategory @ '' research paper'') 5 (openalex_email e)])
      \<and> research_subcategory (e\<lparr>make_llm_request := f\<rparr>) subcategory tr
          = research_subcategory e subcategory tr)
   \<and> (google_search e tr (subcategory @ '' research paper academic source'') = [] \<longrightarrow>
      research_subcategory_google e subcategory tr =
        (Inr (None, []), tr @ [GoogleSearch (subcategory @ '' research paper academic source'')])
      \<and> research_subcategory_google (e\<lparr>make_llm_request := f\<rparr>) subcategory tr
          = research_subcategory_google e subcategory tr)"
  by (simp add: research_subcategory_def research_subcategory_google_def Let_def)

theorem research_without_evidence_witness:
  "research_subcategory
     ((example_env (JObj [(''data'', JStr ''never read'')]))
        \<lparr>openalex_search := \<lambda>tr query limit mailto. []\<rparr>) ''Solar'' []
   = (Inr (None, []), [OpenAlexSearch ''Solar research paper'' 5 None])
   \<and> research_subcategory_google
     ((example_env (JObj [(''data'', JStr ''never read'')]))
        \<lparr>google_search := \<lambda>tr query. []\<rparr>) ''Solar'' []
   = (Inr (None, []), [GoogleSearch ''Solar research paper academic source''])"
  using research_without_evidence[of
      "(example_env (JObj [(''data'', JStr ''never read'')]))
        \<lparr>openalex_search := \<lambda>tr query limit mailto. []\<rparr>" "[]" "''Solar''"]
    research_without_evidence[of
      "(example_env (JObj [(''data'', JStr ''never read'')]))
        \<lparr>google_search := \<lambda>tr query. []\<rparr>" "[]" "''Solar''"]
  by (simp add: example_env_def)

text \<open>
  C1. The claim that the references extracted before a failed synthesis call are returned
  does not hold: with one record found and an engine that fails, one reference is built
  and the researcher returns the empty list.
\<close>

theorem synthesis_failure_references_counterexample:
  "map_sum id snd
     (collect_records (openalex_record (example_env JNull))
        (openalex_search (example_env JNull) [] ''Solar research paper'' 5 None) [] [])
     = Inr [''Ada Lovelace, Alan Turing (2020). Solar cells. https://doi.org/10.1/x'']
   \<and> fst (research_subcategory (example_env JNull) ''Solar'' []) = Inr (None, [])
   \<and> fst (research_subcategory (example_env JNull) ''Solar'' [])
       \<noteq> Inr (None, [''Ada Lovelace, Alan Turing (2020). Solar cells. https://doi.org/10.1/x''])"
  by (simp add: research_subcategory_def synthesize_def narrative_of_response_def
      openalex_record_def example_work_def example_env_def ebind_def
      author_display_name_def str_join_def py_str_def str_int_def digits.simps Let_def)

text \<open>
  C1, as the code has it. When the search found records, the loop over them raised
  nothing and the engine's response is \<open>None\<close> (or any other false value), the
  researcher returns no narrative and the empty list of references, in both variants: the
  references built from the records are dropped.
\<close>

theorem synthesis_failure_discards_references:
  "(openalex_search e tr (subcategory @ '' research paper'') 5 (openalex_email e) = results
      \<and> results \<noteq> []
      \<and> collect_records (openalex_record e) results [] [] = Inr (context_data, references)
      \<and> \<not> truthy (make_llm_request e
            (tr @ [OpenAlexSearch (subcategory @ '' research paper'') 5 (openalex_email e)])
            (research_request (openalex_prompt subcategory context_data))) \<longrightarrow>
      fst (research_subcategory e subcategory tr) = Inr (None, []))
   \<and> (google_search e tr (subcategory @ '' research paper academic source'') = results
      \<and> results \<noteq> []
      \<and> collect_records (google_record e) results [] [] = Inr (context_data, references)
      \<and> \<not> truthy (make_llm_request e
            (tr @ [GoogleSearch (subcategory @ '' research paper academic source'')])
            (research_request (google_prompt subcategory context_data))) \<longrightarrow>
      fst (research_subcategory_google e subcategory tr) = Inr (None, []))"
  by (auto simp: research_subcategory_def research_subcategory_google_def Let_def
      synthesize_falsy)

theorem synthesis_failure_discards_references_witness:
  "(\<exists>context_data.
      collect_records (openalex_record (example_env JNull)) [example_work] [] []
        = Inr (context_data,
               [''Ada Lovelace, Alan Turing (2020). Solar cells. https://doi.org/10.1/x'']))
   \<and> fst (research_subcategory (example_env JNull) ''Solar'' []) = Inr (None, [])"
proof -
  let ?ctx = "''Title: Solar cells\<newline>Authors: Ada Lovelace, Alan Turing\<newline>DOI: https://doi.org/10.1/x\<newline>\<newline>''"
  let ?refs = "[''Ada Lovelace, Alan Turing (2020). Solar cells. https://doi.org/10.1/x'']"
  have c: "collect_records (openalex_record (example_env JNull)) [example_work] [] []
      = Inr (?ctx, ?refs)"
    by (simp add: openalex_record_def example_work_def example_env_def ebind_def
        author_display_name_def str_join_def py_str_def str_int_def digits.simps)
  have s: "openalex_search (example_env JNull) [] (''Solar'' @ '' research paper'') 5
      (openalex_email (example_env JNull)) = [example_work]"
    by (simp add: example_env_def)
  have t: "\<not> truthy (make_llm_request (example_env JNull)
            ([] @ [OpenAlexSearch (''Solar'' @ '' research paper'') 5
                     (openalex_email (example_env JNull))])
            (research_request (openalex_prompt ''Solar'' ?ctx)))"
    by (simp add: example_env_def)
  have "fst (research_subcategory (example_env JNull) ''Solar'' []) = Inr (None, [])"
    using synthesis_failure_discards_references[of "example_env JNull" "[]" "''Solar''"
        "[example_work]" ?ctx ?refs] c s t by blast
  then show ?thesis using c by blast
qed

section \<open>Properties of the document emitters\<close>

text \<open>
  C8. For the Markdown format, when the engine answers with a non-empty text, the file
  written holds that text, then a blank line, the heading \<open>## References\<close>, a blank
  line, and one line \<open>- reference\<close> for each consolidated reference, in their sorted
  order; the call to the engine and the writing of the file are the only events.
\<close>

theorem markdown_document_content:
  "make_llm_request e tr
       (paper_request (markdown_prompt main_topic (join ''\<newline>\<newline>'' research_findings)))
     = response
   \<and> truthy response
   \<and> dict_get response ''data'' (JStr []) = Inr (JStr body)
   \<and> body \<noteq> [] \<longrightarrow>
   generate_markdown_document e main_topic research_findings all_references tr =
     (Inr (Some (''research_paper_'' @ timestamp e @ ''.md'')),
      tr @ [LLMCall (paper_request
                      (markdown_prompt main_topic (join ''\<newline>\<newline>'' research_findings))),
            FileWrite (''research_paper_'' @ timestamp e @ ''.md'')
              (body @ ''\<newline>\<newline>## References\<newline>\<newline>''
                 @ join ''\<newline>'' (map (\<lambda>ref. ''- '' @ ref) (consolidate all_references)))])"
proof -
  have "(@) ''- '' = (\<lambda>ref. CHR ''-'' # CHR '' '' # ref)"
    by (rule ext) simp
  then show ?thesis
    by (simp add: generate_markdown_document_def Let_def)
qed

theorem markdown_document_content_witness:
  "generate_markdown_document (example_env (JObj [(''data'', JStr ''# Sun'')])) ''Sun''
     [''a'', ''b''] [''B. 2019. U.'', '' A. 2020. T. '', ''A. 2020. T.''] [] =
     (Inr (Some ''research_paper_20240101_120000.md''),
      [LLMCall (paper_request (markdown_prompt ''Sun'' ''a\<newline>\<newline>b'')),
       FileWrite ''research_paper_20240101_120000.md''
         ''# Sun\<newline>\<newline>## References\<newline>\<newline>- A. 2020. T.\<newline>- B. 2019. U.''])"
proof -
  let ?e = "example_env (JObj [(''data'', JStr ''# Sun'')])"
  have c: "consolidate [''B. 2019. U.'', '' A. 2020. T. '', ''A. 2020. T.'']
      = [''A. 2020. T.'', ''B. 2019. U.'']"
    by (simp add: consolidate_def strip_def strip_where_def py_isspace_def
        sorted_list_of_set_sort_remdups)
  have r: "make_llm_request ?e []
       (paper_request (markdown_prompt ''Sun'' (join ''\<newline>\<newline>'' [''a'', ''b''])))
     = JObj [(''data'', JStr ''# Sun'')]"
    by (simp add: example_env_def)
  have t: "timestamp ?e = ''20240101_120000''" by (simp add: example_env_def)
  show ?thesis
    using markdown_document_content[of ?e "[]" "''Sun''" "[''a'', ''b'']"
        "JObj [(''data'', JStr ''# Sun'')]" "''# Sun''"
        "[''B. 2019. U.'', '' A. 2020. T. '', ''A. 2020. T.'']"] r
    by (simp add: c t)
qed

section \<open>Properties of the pipeline\<close>








end
